theory Spec2Isabelle
  imports Main "HOL-Library.Word"
begin

section \<open>The image-generation relay: values of the JavaScript runtime\<close>

text \<open>
  The repository holds one request handler, \<^verbatim>\<open>POST /api/generate-image\<close>, in two
  revisions: \<^verbatim>\<open>src/server.js\<close> and \<^verbatim>\<open>src/unnamed/part_000\<close>. Both are embedded
  here; where they differ the model branches on the revision.

  A JavaScript string is a sequence of 16-bit code units. String literals of the
  source are ASCII and are written with \<open>lit\<close>.
\<close>

type_synonym jstring = "16 word list"

definition lit :: "string \<Rightarrow> jstring" where
  "lit s = map of_char s"

text \<open>
  A value produced by \<^verbatim>\<open>JSON.parse\<close>. A number is kept as the text that JavaScript's
  number-to-string conversion gives for it: the handler only ever tests a number for
  truthiness and renders it inside a template literal. Both zeros render as \<^verbatim>\<open>0\<close>, and
  \<^verbatim>\<open>NaN\<close> cannot come out of JSON, so a number is falsy exactly when its text is \<^verbatim>\<open>0\<close>.
  An object is its list of own properties. \<^verbatim>\<open>undefined\<close> is not a JSON value: the result
  of reading a property is a \<open>jsval option\<close>, with \<open>None\<close> for \<^verbatim>\<open>undefined\<close>.
\<close>

datatype jsval =
    JNull
  | JBool bool
  | JNum jstring
  | JStr jstring
  | JArr "jsval list"
  | JObj "(jstring \<times> jsval) list"

datatype exn = FetchError | SyntaxError | TypeError

text \<open>Sequencing of steps that may throw: the first exception ends the \<^verbatim>\<open>try\<close> block.\<close>

definition and_then :: "exn + 'a \<Rightarrow> ('a \<Rightarrow> exn + 'b) \<Rightarrow> exn + 'b" where
  "and_then m f = (case m of Inl e \<Rightarrow> Inl e | Inr x \<Rightarrow> f x)"

subsection \<open>Truthiness, \<^verbatim>\<open>typeof\<close>, property reads\<close>

fun truthy :: "jsval option \<Rightarrow> bool" where
  "truthy None = False"
| "truthy (Some JNull) = False"
| "truthy (Some (JBool b)) = b"
| "truthy (Some (JNum t)) = (t \<noteq> lit ''0'')"
| "truthy (Some (JStr s)) = (s \<noteq> [])"
| "truthy (Some (JArr xs)) = True"
| "truthy (Some (JObj fs)) = True"

fun typeof :: "jsval option \<Rightarrow> string" where
  "typeof None = ''undefined''"
| "typeof (Some JNull) = ''object''"
| "typeof (Some (JBool b)) = ''boolean''"
| "typeof (Some (JNum t)) = ''number''"
| "typeof (Some (JStr s)) = ''string''"
| "typeof (Some (JArr xs)) = ''object''"
| "typeof (Some (JObj fs)) = ''object''"

text \<open>
  \<^verbatim>\<open>x.name\<close> for the property names the handler reads (\<^verbatim>\<open>status\<close>, \<^verbatim>\<open>output\<close>, \<^verbatim>\<open>error\<close>,
  \<^verbatim>\<open>detail\<close>, \<^verbatim>\<open>description\<close>): none of them is defined by a prototype, an array index or
  \<^verbatim>\<open>length\<close>, so only an object can have one. Reading a property of \<^verbatim>\<open>null\<close> throws.
\<close>

fun member :: "jsval \<Rightarrow> jstring \<Rightarrow> exn + jsval option" where
  "member JNull name = Inl TypeError"
| "member (JObj fs) name = Inr (map_of fs name)"
| "member v name = Inr None"

text \<open>\<^verbatim>\<open>x?.name\<close>: \<^verbatim>\<open>undefined\<close> instead of the exception.\<close>

fun opt_member :: "jsval \<Rightarrow> jstring \<Rightarrow> jsval option" where
  "opt_member JNull name = None"
| "opt_member (JObj fs) name = map_of fs name"
| "opt_member v name = None"

subsection \<open>Strings\<close>

text \<open>
  \<^verbatim>\<open>String.prototype.trim\<close> removes the code units of ECMAScript's WhiteSpace and
  LineTerminator productions from both ends.
\<close>

definition is_white_space :: "16 word \<Rightarrow> bool" where
  "is_white_space c \<longleftrightarrow>
     c = 0x0009 \<or> c = 0x000A \<or> c = 0x000B \<or> c = 0x000C \<or> c = 0x000D \<or> c = 0x0020 \<or>
     c = 0x00A0 \<or> c = 0x1680 \<or> (0x2000 \<le> c \<and> c \<le> 0x200A) \<or> c = 0x2028 \<or> c = 0x2029 \<or>
     c = 0x202F \<or> c = 0x205F \<or> c = 0x3000 \<or> c = 0xFEFF"

definition trim :: "jstring \<Rightarrow> jstring" where
  "trim s = rev (dropWhile is_white_space (rev (dropWhile is_white_space s)))"

definition starts_with :: "jstring \<Rightarrow> jstring \<Rightarrow> bool" where
  "starts_with s p \<longleftrightarrow> take (length p) s = p"

text \<open>\<^verbatim>\<open>s.includes(p)\<close>: \<open>p\<close> occurs in \<open>s\<close> as a contiguous run.\<close>

fun includes_str :: "jstring \<Rightarrow> jstring \<Rightarrow> bool" where
  "includes_str [] p = (p = [])"
| "includes_str (c # s) p = (starts_with (c # s) p \<or> includes_str s p)"

fun join :: "jstring \<Rightarrow> jstring list \<Rightarrow> jstring" where
  "join sep [] = []"
| "join sep [s] = s"
| "join sep (s # t # ss) = s @ sep @ join sep (t # ss)"

text \<open>The decimal digits of an HTTP status code, as a template literal renders it.\<close>

fun show_nat :: "nat \<Rightarrow> jstring" where
  "show_nat n =
     (if n < 10 then [48 + of_nat n] else show_nat (n div 10) @ [48 + of_nat (n mod 10)])"

declare show_nat.simps [simp del]

text \<open>
  The string conversion of a template literal \<^verbatim>\<open>`${v}`\<close>. An array renders its elements
  joined by commas, \<^verbatim>\<open>null\<close> elements as the empty string. A plain object renders as
  \<^verbatim>\<open>[object Object]\<close> through \<^verbatim>\<open>Object.prototype.toString\<close>, unless it has an own property
  \<^verbatim>\<open>toString\<close>: a parsed JSON value is never callable, the inherited \<^verbatim>\<open>valueOf\<close> returns the
  object itself, and the conversion throws a TypeError.
\<close>

fun to_string :: "jsval \<Rightarrow> exn + jstring"
  and element_strings :: "jsval list \<Rightarrow> exn + jstring list" where
  "to_string JNull = Inr (lit ''null'')"
| "to_string (JBool b) = Inr (if b then lit ''true'' else lit ''false'')"
| "to_string (JNum t) = Inr t"
| "to_string (JStr s) = Inr s"
| "to_string (JArr xs) =
     (case element_strings xs of Inl e \<Rightarrow> Inl e | Inr ss \<Rightarrow> Inr (join (lit '','') ss))"
| "to_string (JObj fs) =
     (if map_of fs (lit ''toString'') \<noteq> None then Inl TypeError
      else Inr (lit ''[object Object]''))"
| "element_strings [] = Inr []"
| "element_strings (x # xs) =
     (case (if x = JNull then Inr [] else to_string x) of
        Inl e \<Rightarrow> Inl e
      | Inr s \<Rightarrow> (case element_strings xs of Inl e \<Rightarrow> Inl e | Inr ss \<Rightarrow> Inr (s # ss)))"

fun template :: "jsval option \<Rightarrow> exn + jstring" where
  "template None = Inr (lit ''undefined'')"
| "template (Some v) = to_string v"

section \<open>The handler's surroundings\<close>

text \<open>
  \<^verbatim>\<open>req.body\<close> as \<^verbatim>\<open>express.json()\<close> leaves it: the parsed JSON value of the request (an
  object or an array), or what the framework puts there when no body was parsed: the
  empty object under Express 4, \<^verbatim>\<open>undefined\<close> (\<open>None\<close>) under Express 5. The source pins no
  version, so both are inputs of the handler.
\<close>

record request =
  body :: "jsval option"

text \<open>\<^verbatim>\<open>process.env.REPLICATE_API_TOKEN\<close>: a string, or \<^verbatim>\<open>undefined\<close> when it is not set.\<close>

record environment =
  REPLICATE_API_TOKEN :: "jstring option"

text \<open>The arguments of the call to \<^verbatim>\<open>fetch\<close>; \<open>payload\<close> is the value given to \<^verbatim>\<open>JSON.stringify\<close>.\<close>

record outbound_request =
  url :: jstring
  http_method :: jstring
  headers :: "(jstring \<times> jstring) list"
  payload :: jsval

text \<open>
  What the handler can observe of the provider's response: the status code, what
  \<^verbatim>\<open>headers.get('content-type')\<close> returns (\<open>None\<close> for \<^verbatim>\<open>null\<close>), and the outcomes of reading
  the body with \<^verbatim>\<open>.json()\<close> and with \<^verbatim>\<open>.text()\<close>, either of which may reject. The handler
  reads a body at most once, one way or the other; the model does not relate the two
  outcomes, so what is proved holds whatever the parser makes of a text.
\<close>

record upstream_response =
  status :: nat
  content_type :: "jstring option"
  read_json :: "exn + jsval"
  read_text :: "exn + jstring"

text \<open>The provider: what \<^verbatim>\<open>await fetch(...)\<close> yields for a request, or the exception it throws.\<close>

type_synonym provider = "outbound_request \<Rightarrow> exn + upstream_response"

text \<open>The response the handler sends: \<^verbatim>\<open>res.status(code).json(content)\<close>.\<close>

record response =
  code :: nat
  content :: jsval

text \<open>What the handler does to the provider, in order.\<close>

datatype event = Fetch outbound_request | ReadJson | ReadText

datatype revision = Server_js | Part_000

text \<open>\<^verbatim>\<open>Response.ok\<close> of node-fetch: the status is in the range 200 to 299.\<close>

definition ok :: "upstream_response \<Rightarrow> bool" where
  "ok r \<longleftrightarrow> 200 \<le> status r \<and> status r \<le> 299"

text \<open>\<^verbatim>\<open>replicateResponse.headers.get('content-type')?.includes('application/json') === true\<close>\<close>

definition json_typed :: "upstream_response \<Rightarrow> bool" where
  "json_typed r =
     (case content_type r of None \<Rightarrow> False | Some ct \<Rightarrow> includes_str ct (lit ''application/json''))"

section \<open>The handler\<close>

subsection \<open>Step 3: the request sent to the provider\<close>

definition REPLICATE_API_URL :: jstring where
  "REPLICATE_API_URL =
     lit ''https://api.replicate.com/v1/models/black-forest-labs/flux-1.1-pro/predictions''"

definition requestBody :: "jstring \<Rightarrow> jsval" where
  "requestBody trimmedDescription =
     JObj [(lit ''input'',
            JObj [(lit ''prompt'', JStr trimmedDescription),
                  (lit ''prompt_upsampling'', JBool True)])]"

definition request_headers :: "revision \<Rightarrow> jstring \<Rightarrow> (jstring \<times> jstring) list" where
  "request_headers rvn replicateApiToken =
     (case rvn of
        Server_js \<Rightarrow>
          [(lit ''Authorization'', lit ''Bearer '' @ replicateApiToken),
           (lit ''Content-Type'', lit ''application/json''),
           (lit ''Prefer'', lit ''wait'')]
      | Part_000 \<Rightarrow>
          [(lit ''Authorization'', lit ''Token '' @ replicateApiToken),
           (lit ''Content-Type'', lit ''application/json''),
           (lit ''Prefer'', lit ''wait''),
           (lit ''User-Agent'', lit ''Mozilla/5.0 (Windows NT 10.0; Win64; x64)''),
           (lit ''Accept'', lit ''application/json'')])"

definition provider_request :: "revision \<Rightarrow> jstring \<Rightarrow> jstring \<Rightarrow> outbound_request" where
  "provider_request rvn replicateApiToken trimmedDescription =
     \<lparr> url = REPLICATE_API_URL,
       http_method = lit ''POST'',
       headers = request_headers rvn replicateApiToken,
       payload = requestBody trimmedDescription \<rparr>"

subsection \<open>The responses\<close>

definition error_json :: "nat \<Rightarrow> jstring \<Rightarrow> response" where
  "error_json c msg = \<lparr> code = c, content = JObj [(lit ''error'', JStr msg)] \<rparr>"

definition image_json :: "jstring \<Rightarrow> response" where
  "image_json u = \<lparr> code = 200, content = JObj [(lit ''imageUrl'', JStr u)] \<rparr>"

definition bad_request :: response where
  "bad_request = error_json 400 (lit ''Missing or invalid image description.'')"

definition not_configured :: response where
  "not_configured = error_json 500 (lit ''Image generation service is not configured correctly.'')"

definition internal_error :: response where
  "internal_error = error_json 500 (lit ''Internal server error during image generation call.'')"

definition connection_failed :: "nat \<Rightarrow> response" where
  "connection_failed st =
     error_json 502 (lit ''Image service connection failed with status: '' @ show_nat st)"

definition generation_failed :: "jstring \<Rightarrow> response" where
  "generation_failed detail = error_json 502 (lit ''Failed to generate image. '' @ detail)"

text \<open>The code unit \<open>0x27\<close> is the apostrophe around the status in the message below.\<close>

definition no_valid_url :: "jstring \<Rightarrow> response" where
  "no_valid_url shown =
     error_json 502
       (lit ''Image service returned status '' @ [0x27] @ shown @ [0x27] @
        lit '' or did not provide a valid image URL.'')"

subsection \<open>Step 1: the description\<close>

text \<open>
  \<^verbatim>\<open>const { description } = req.body\<close>: destructuring \<^verbatim>\<open>undefined\<close> or \<^verbatim>\<open>null\<close> throws a
  TypeError. The statement stands before the \<^verbatim>\<open>try\<close> block, so the exception leaves the
  handler.
\<close>

definition req_description :: "request \<Rightarrow> exn + jsval option" where
  "req_description req =
     (case body req of
        None \<Rightarrow> Inl TypeError
      | Some v \<Rightarrow> member v (lit ''description''))"

text \<open>
  \<^verbatim>\<open>!description || typeof description !== 'string' || description.trim().length === 0\<close>:
  \<open>None\<close> when the test rejects the request, otherwise the description.
\<close>

definition checked_description :: "jsval option \<Rightarrow> jstring option" where
  "checked_description description =
     (if \<not> truthy description \<or> typeof description \<noteq> ''string'' then None
      else case description of
             Some (JStr s) \<Rightarrow> (if length (trim s) = 0 then None else Some s)
           | _ \<Rightarrow> None)"

subsection \<open>The provider answered with an error status and a JSON body\<close>

text \<open>\<^verbatim>\<open>a || b\<close>, with \<open>b\<close> already evaluated (it has no effects here).\<close>

definition or_else :: "jsval option \<Rightarrow> jsval \<Rightarrow> jsval" where
  "or_else a b = (case a of None \<Rightarrow> b | Some v \<Rightarrow> if truthy (Some v) then v else b)"

text \<open>
  \<^verbatim>\<open>responseData?.error || responseData?.detail || `Replicate API Status: ${status}`\<close>
\<close>

definition errorDetail :: "nat \<Rightarrow> jsval \<Rightarrow> jsval" where
  "errorDetail st responseData =
     or_else (opt_member responseData (lit ''error''))
       (or_else (opt_member responseData (lit ''detail''))
          (JStr (lit ''Replicate API Status: '' @ show_nat st)))"

definition error_reply :: "nat \<Rightarrow> jsval \<Rightarrow> exn + response" where
  "error_reply st responseData =
     and_then (to_string (errorDetail st responseData)) (\<lambda>shown.
     Inr (generation_failed shown))"

subsection \<open>Step 5: the provider answered with a success status\<close>

text \<open>
  The candidate \<^verbatim>\<open>imageUrlToSend\<close>, \<^verbatim>\<open>null\<close> at first. When it is taken from an array the
  source logs it through a template literal, whose string conversion may throw.
\<close>

definition imageUrlToSend :: "jsval option \<Rightarrow> jsval option \<Rightarrow> exn + jsval" where
  "imageUrlToSend st output =
     (if (st = Some (JStr (lit ''succeeded'')) \<or> st = Some (JStr (lit ''processing''))) \<and>
         truthy output
      then case output of
             Some (JArr (x # xs)) \<Rightarrow> and_then (to_string x) (\<lambda>logged. Inr x)
           | Some (JStr s) \<Rightarrow> Inr (JStr s)
           | _ \<Rightarrow> Inr JNull
      else Inr JNull)"

definition success_reply :: "jsval \<Rightarrow> exn + response" where
  "success_reply responseData =
     and_then (member responseData (lit ''status'')) (\<lambda>st.
     and_then (template st) (\<lambda>logged.
     and_then (member responseData (lit ''output'')) (\<lambda>output.
     and_then (imageUrlToSend st output) (\<lambda>candidate.
       case candidate of
         JStr u \<Rightarrow>
           if starts_with u (lit ''http'') then Inr (image_json u)
           else and_then (template st) (\<lambda>shown. Inr (no_valid_url shown))
       | _ \<Rightarrow> and_then (template st) (\<lambda>shown. Inr (no_valid_url shown))))))"

subsection \<open>Step 4: the call, inside \<^verbatim>\<open>try\<close>\<close>

text \<open>
  The events are kept apart from the outcome: an exception ends the block, the calls
  made before it have still been made. In \<^verbatim>\<open>part_000\<close> the branch for a body that is not
  JSON-typed first awaits \<^verbatim>\<open>replicateResponse.text()\<close>, to log it.
\<close>

definition call_provider ::
  "revision \<Rightarrow> provider \<Rightarrow> jstring \<Rightarrow> jstring \<Rightarrow> event list \<times> (exn + response)" where
  "call_provider rvn fetch replicateApiToken trimmedDescription =
     (let rq = provider_request rvn replicateApiToken trimmedDescription in
      case fetch rq of
        Inl e \<Rightarrow> ([Fetch rq], Inl e)
      | Inr replicateResponse \<Rightarrow>
          if \<not> ok replicateResponse \<and> \<not> json_typed replicateResponse then
            (case rvn of
               Server_js \<Rightarrow> ([Fetch rq], Inr (connection_failed (status replicateResponse)))
             | Part_000 \<Rightarrow>
                 ([Fetch rq, ReadText],
                  and_then (read_text replicateResponse) (\<lambda>rawText.
                  Inr (connection_failed (status replicateResponse)))))
          else
            ([Fetch rq, ReadJson],
             and_then (read_json replicateResponse) (\<lambda>responseData.
             if \<not> ok replicateResponse
             then error_reply (status replicateResponse) responseData
             else success_reply responseData)))"

subsection \<open>The whole handler\<close>

text \<open>
  The result is the trace of provider events and either the response sent or, when the
  handler throws outside its \<^verbatim>\<open>try\<close> block, the exception: then the handler itself sends
  no response.
\<close>

definition generate_image ::
  "revision \<Rightarrow> environment \<Rightarrow> provider \<Rightarrow> request \<Rightarrow> event list \<times> (exn + response)" where
  "generate_image rvn env fetch req =
     (case req_description req of
        Inl e \<Rightarrow> ([], Inl e)
      | Inr description \<Rightarrow>
         (case checked_description description of
            None \<Rightarrow> ([], Inr bad_request)
          | Some description \<Rightarrow>
              let trimmedDescription = trim description in
              case REPLICATE_API_TOKEN env of
                None \<Rightarrow> ([], Inr not_configured)
              | Some replicateApiToken \<Rightarrow>
                  if replicateApiToken = [] then ([], Inr not_configured)
                  else
                    case call_provider rvn fetch replicateApiToken trimmedDescription of
                      (events, Inl e) \<Rightarrow> (events, Inr internal_error)
                    | (events, Inr res) \<Rightarrow> (events, Inr res)))"

section \<open>Notions the properties are stated with\<close>

text \<open>The outbound calls of a trace, in order.\<close>

fun fetches :: "event list \<Rightarrow> outbound_request list" where
  "fetches [] = []"
| "fetches (Fetch rq # evs) = rq # fetches evs"
| "fetches (ReadJson # evs) = fetches evs"
| "fetches (ReadText # evs) = fetches evs"

text \<open>
  The candidate as the specification words it: the first element when \<^verbatim>\<open>output\<close> is a
  non-empty array, \<^verbatim>\<open>output\<close> itself when it is a string, otherwise none.
\<close>

definition candidate_of_output :: "jsval option \<Rightarrow> jsval option" where
  "candidate_of_output output =
     (case output of
        Some (JArr (x # xs)) \<Rightarrow> Some x
      | Some (JStr s) \<Rightarrow> Some (JStr s)
      | _ \<Rightarrow> None)"

text \<open>
  Extraction succeeds with the URL \<open>u\<close>, as the specification words it: the \<^verbatim>\<open>status\<close> field
  is \<^verbatim>\<open>succeeded\<close> or \<^verbatim>\<open>processing\<close>, an \<^verbatim>\<open>output\<close> field is present, and the candidate is
  the string \<open>u\<close>, which starts with \<^verbatim>\<open>http\<close>.
\<close>

definition extracts :: "jsval \<Rightarrow> jstring \<Rightarrow> bool" where
  "extracts responseData u \<longleftrightarrow>
     (opt_member responseData (lit ''status'') = Some (JStr (lit ''succeeded'')) \<or>
      opt_member responseData (lit ''status'') = Some (JStr (lit ''processing''))) \<and>
     opt_member responseData (lit ''output'') \<noteq> None \<and>
     candidate_of_output (opt_member responseData (lit ''output'')) = Some (JStr u) \<and>
     starts_with u (lit ''http'')"

text \<open>
  The detail of an upstream error as the specification words it: taken from the \<^verbatim>\<open>error\<close>
  field, else from the \<^verbatim>\<open>detail\<close> field, else a generic string naming the status. A field
  counts when its value is truthy.
\<close>

definition detail_of_body :: "nat \<Rightarrow> jsval \<Rightarrow> jsval" where
  "detail_of_body st responseData =
     (case opt_member responseData (lit ''error'') of
        Some v \<Rightarrow> if truthy (Some v) then v else
          (case opt_member responseData (lit ''detail'') of
             Some w \<Rightarrow> if truthy (Some w) then w else JStr (lit ''Replicate API Status: '' @ show_nat st)
           | None \<Rightarrow> JStr (lit ''Replicate API Status: '' @ show_nat st))
      | None \<Rightarrow>
          (case opt_member responseData (lit ''detail'') of
             Some w \<Rightarrow> if truthy (Some w) then w else JStr (lit ''Replicate API Status: '' @ show_nat st)
           | None \<Rightarrow> JStr (lit ''Replicate API Status: '' @ show_nat st)))"

section \<open>Example inputs\<close>

definition cat_request :: request where
  "cat_request = \<lparr>body = Some (JObj [(lit ''description'', JStr (lit '' a cat ''))])\<rparr>"


definition configured :: environment where
  "configured = \<lparr>REPLICATE_API_TOKEN = Some (lit ''r8_key'')\<rparr>"

definition succeeded_with_array :: upstream_response where
  \<open>succeeded_with_array =
     \<lparr>status = 200, content_type = Some (lit ''application/json''),
      read_json = Inr (JObj [(lit ''status'', JStr (lit ''succeeded'')),
                             (lit ''output'', JArr [JStr (lit ''http://x/img.png'')])]),
      read_text = Inr (lit ''{"status":"succeeded","output":["http://x/img.png"]}'')\<rparr>\<close>

definition succeeded_with_string :: upstream_response where
  \<open>succeeded_with_string =
     \<lparr>status = 200, content_type = Some (lit ''application/json''),
      read_json = Inr (JObj [(lit ''status'', JStr (lit ''succeeded'')),
                             (lit ''output'', JStr (lit ''http://x/img.png''))]),
      read_text = Inr (lit ''{"status":"succeeded","output":"http://x/img.png"}'')\<rparr>\<close>

text \<open>A failed prediction whose \<^verbatim>\<open>output\<close> holds an object that cannot be rendered.\<close>

definition failed_with_odd_output :: upstream_response where
  \<open>failed_with_odd_output =
     \<lparr>status = 200, content_type = Some (lit ''application/json''),
      read_json = Inr (JObj [(lit ''status'', JStr (lit ''failed'')),
                             (lit ''output'', JArr [JObj [(lit ''toString'', JStr (lit ''x''))]])]),
      read_text = Inr (lit ''{"status":"failed","output":[{"toString":"x"}]}'')\<rparr>\<close>

definition bad_prompt :: upstream_response where
  \<open>bad_prompt =
     \<lparr>status = 422, content_type = Some (lit ''application/json''),
      read_json = Inr (JObj [(lit ''error'', JStr (lit ''bad prompt''))]),
      read_text = Inr (lit ''{"error":"bad prompt"}'')\<rparr>\<close>

text \<open>A gateway's HTML error page, labelled as JSON: \<^verbatim>\<open>.json()\<close> rejects.\<close>

definition broken_error_body :: upstream_response where
  "broken_error_body =
     \<lparr>status = 500, content_type = Some (lit ''application/json''),
      read_json = Inl SyntaxError, read_text = Inr (lit ''<html>'')\<rparr>"

definition broken_success_body :: upstream_response where
  "broken_success_body =
     \<lparr>status = 200, content_type = Some (lit ''text/html''),
      read_json = Inl SyntaxError, read_text = Inr (lit ''<html>'')\<rparr>"

text \<open>The body \<^verbatim>\<open>null\<close>: valid JSON, and not an object.\<close>

definition null_success_body :: upstream_response where
  "null_success_body =
     \<lparr>status = 200, content_type = Some (lit ''application/json''),
      read_json = Inr JNull, read_text = Inr (lit ''null'')\<rparr>"

section \<open>Properties\<close>

subsection \<open>Trimming and the validation of the description\<close>

lemma dropWhile_rev_fix:
  "dropWhile P (rev (dropWhile P (rev (dropWhile P s)))) = rev (dropWhile P (rev (dropWhile P s)))"
proof (cases "dropWhile P (rev (dropWhile P s)) = []")
  case True
  show ?thesis by (simp only: True rev.simps dropWhile.simps)
next
  case False
  let ?t = "dropWhile P s"
  let ?u = "dropWhile P (rev ?t)"
  have tne: "?t \<noteq> []"
  proof
    assume "?t = []"
    then have "?u = []" by (simp only: rev.simps dropWhile.simps)
    with False show False by (rule notE)
  qed
  have "rev ?t = takeWhile P (rev ?t) @ ?u" by simp
  then have "last (rev ?t) = last ?u" using False by (metis last_appendR)
  then have "last ?u = hd ?t" using tne by (simp add: last_rev)
  moreover have "\<not> P (hd ?t)" using tne by (rule hd_dropWhile)
  ultimately have "\<not> P (hd (rev ?u))" using False by (simp add: hd_rev)
  then show ?thesis using False by (cases "rev ?u") auto
qed

lemma trim_idem: "trim (trim s) = trim s"
  unfolding trim_def by (simp add: dropWhile_rev_fix)

lemma trim_Nil: "trim [] = []"
  by (simp add: trim_def)

lemma trim_no_trailing:
  assumes "trim s = t @ [c]"
  shows "\<not> is_white_space c"
proof -
  let ?u = "dropWhile is_white_space (rev (dropWhile is_white_space s))"
  from assms have "rev ?u = t @ [c]" by (simp add: trim_def)
  then have "rev (rev ?u) = rev (t @ [c])" by (rule arg_cong)
  then have u: "?u = c # rev t" by simp
  then have "?u \<noteq> []" by simp
  then have "\<not> is_white_space (hd ?u)" by (rule hd_dropWhile)
  with u show ?thesis by simp
qed

lemma trim_no_leading:
  assumes "trim s = c # t"
  shows "\<not> is_white_space c"
proof -
  let ?v = "dropWhile is_white_space s"
  let ?u = "dropWhile is_white_space (rev ?v)"
  from assms have "rev ?u = c # t" by (simp add: trim_def)
  then have "rev (rev ?u) = rev (c # t)" by (rule arg_cong)
  then have u: "?u = rev t @ [c]" by simp
  have "rev ?v = takeWhile is_white_space (rev ?v) @ ?u" by simp
  then have "rev ?v = (takeWhile is_white_space (rev ?v) @ rev t) @ [c]"
    by (simp only: u append_assoc)
  then have "rev (rev ?v) = rev ((takeWhile is_white_space (rev ?v) @ rev t) @ [c])"
    by (rule arg_cong)
  then have v: "?v = c # rev (takeWhile is_white_space (rev ?v) @ rev t)"
    by (simp only: rev_rev_ident rev_append rev.simps append.simps)
  then have "?v \<noteq> []" by (metis list.distinct(1))
  then have "\<not> is_white_space (hd ?v)" by (rule hd_dropWhile)
  with v show ?thesis by (metis list.sel(1))
qed

lemma checked_description_Some:
  "checked_description d = Some s \<longleftrightarrow> d = Some (JStr s) \<and> trim s \<noteq> []"
  by (cases d rule: typeof.cases) (auto simp: checked_description_def trim_Nil)

lemma checked_description_None:
  "checked_description d = None \<longleftrightarrow> (\<forall>s. d = Some (JStr s) \<longrightarrow> trim s = [])"
  by (cases d rule: typeof.cases) (auto simp: checked_description_def trim_Nil)





text \<open>
  Claim C5. With a valid description, when \<^verbatim>\<open>REPLICATE_API_TOKEN\<close> is not set (or is the
  empty string) the handler answers with status 500 and the body
  \<^verbatim>\<open>{ error: "Image generation service is not configured correctly." }\<close>, and the trace of
  provider events is empty: it fails before any outbound call.
\<close>

theorem missing_credential_500:
  assumes "req_description req = Inr (Some (JStr s))" and "trim s \<noteq> []"
    and "REPLICATE_API_TOKEN env = None \<or> REPLICATE_API_TOKEN env = Some []"
  shows "generate_image rvn env fetch req =
           ([], Inr \<lparr>code = 500,
                 content = JObj [(lit ''error'',
                   JStr (lit ''Image generation service is not configured correctly.''))]\<rparr>)"
proof -
  from assms(2) have "checked_description (Some (JStr s)) = Some s"
    by (simp add: checked_description_Some)
  with assms(1,3) show ?thesis
    by (auto simp: generate_image_def not_configured_def error_json_def)
qed

theorem missing_credential_500_witness:
  "req_description \<lparr>body = Some (JObj [(lit ''description'', JStr (lit ''a cat''))])\<rparr> = Inr (Some (JStr (lit ''a cat''))) \<and>
   trim (lit ''a cat'') \<noteq> [] \<and>
   generate_image Part_000 \<lparr>REPLICATE_API_TOKEN = None\<rparr> (\<lambda>rq. Inl FetchError)
       \<lparr>body = Some (JObj [(lit ''description'', JStr (lit ''a cat''))])\<rparr> =
     ([], Inr \<lparr>code = 500,
           content = JObj [(lit ''error'',
             JStr (lit ''Image generation service is not configured correctly.''))]\<rparr>)"
proof -
  have d: "req_description \<lparr>body = Some (JObj [(lit ''description'', JStr (lit ''a cat''))])\<rparr> = Inr (Some (JStr (lit ''a cat'')))"
    by (simp add: req_description_def)
  have t: "trim (lit ''a cat'') \<noteq> []"
    by (simp add: trim_def lit_def is_white_space_def)
  have e: "REPLICATE_API_TOKEN \<lparr>REPLICATE_API_TOKEN = None\<rparr> = None \<or>
           REPLICATE_API_TOKEN \<lparr>REPLICATE_API_TOKEN = None\<rparr> = Some []"
    by simp
  from missing_credential_500 [OF d t e] d t show ?thesis by blast
qed

subsection \<open>The example request, environment and upstream responses\<close>

lemma cat_request_description:
  "req_description cat_request = Inr (Some (JStr (lit '' a cat '')))"
  by (simp add: cat_request_def req_description_def)

lemma trim_a_cat: "trim (lit '' a cat '') = lit ''a cat''"
  by (simp add: trim_def lit_def is_white_space_def)

lemma trim_a_cat_nonempty: "trim (lit '' a cat '') \<noteq> []"
  by (simp add: trim_a_cat) (simp add: lit_def)

lemma configured_token: "REPLICATE_API_TOKEN configured = Some (lit ''r8_key'')"
  by (simp add: configured_def)

lemma token_nonempty: "lit ''r8_key'' \<noteq> []"
  by (simp add: lit_def)

lemma provider_replies:
  "(\<lambda>rq. Inr r) (provider_request rvn tok p) = (Inr r :: exn + upstream_response)"
  by simp

subsection \<open>The steps of the handler\<close>

lemma generate_image_valid:
  assumes "req_description req = Inr (Some (JStr s))" and "trim s \<noteq> []"
    and "REPLICATE_API_TOKEN env = Some tok" and "tok \<noteq> []"
  shows "generate_image rvn env fetch req =
           (fst (call_provider rvn fetch tok (trim s)),
            Inr (case snd (call_provider rvn fetch tok (trim s)) of
                   Inl e \<Rightarrow> internal_error | Inr res \<Rightarrow> res))"
proof -
  from assms(2) have "checked_description (Some (JStr s)) = Some s"
    by (simp add: checked_description_Some)
  with assms(1,3,4) show ?thesis
    by (simp add: generate_image_def split: prod.splits sum.splits)
qed

lemma call_provider_throws:
  "fetch (provider_request rvn tok p) = Inl e \<Longrightarrow>
   call_provider rvn fetch tok p = ([Fetch (provider_request rvn tok p)], Inl e)"
  by (simp add: call_provider_def)

lemma call_provider_untyped:
  "fetch (provider_request rvn tok p) = Inr r \<Longrightarrow> \<not> ok r \<Longrightarrow> \<not> json_typed r \<Longrightarrow>
   call_provider rvn fetch tok p =
     (case rvn of
        Server_js \<Rightarrow> ([Fetch (provider_request rvn tok p)], Inr (connection_failed (status r)))
      | Part_000 \<Rightarrow>
          ([Fetch (provider_request rvn tok p), ReadText],
           and_then (read_text r) (\<lambda>rawText. Inr (connection_failed (status r)))))"
  by (simp add: call_provider_def Let_def)

lemma call_provider_error_json:
  "fetch (provider_request rvn tok p) = Inr r \<Longrightarrow> \<not> ok r \<Longrightarrow> json_typed r \<Longrightarrow>
   call_provider rvn fetch tok p =
     ([Fetch (provider_request rvn tok p), ReadJson],
      and_then (read_json r) (error_reply (status r)))"
  by (simp add: call_provider_def)

lemma call_provider_ok:
  "fetch (provider_request rvn tok p) = Inr r \<Longrightarrow> ok r \<Longrightarrow>
   call_provider rvn fetch tok p =
     ([Fetch (provider_request rvn tok p), ReadJson], and_then (read_json r) success_reply)"
  by (simp add: call_provider_def)

lemma fetches_call_provider:
  "fetches (fst (call_provider rvn fetch tok p)) = [provider_request rvn tok p]"
  by (auto simp: call_provider_def Let_def split: sum.splits revision.splits)

lemma success_reply_null: "success_reply JNull = Inl TypeError"
  by (simp add: success_reply_def and_then_def)

lemma member_opt:
  "d \<noteq> JNull \<Longrightarrow> member d name = Inr (opt_member d name)"
  by (cases d) simp_all

lemma success_reply_unfold:
  assumes "d \<noteq> JNull"
  shows "success_reply d =
     and_then (template (opt_member d (lit ''status''))) (\<lambda>shown.
     and_then (imageUrlToSend (opt_member d (lit ''status'')) (opt_member d (lit ''output'')))
       (\<lambda>candidate.
          case candidate of
            JStr u \<Rightarrow> if starts_with u (lit ''http'') then Inr (image_json u)
                      else Inr (no_valid_url shown)
          | _ \<Rightarrow> Inr (no_valid_url shown)))"
  using assms
  by (auto simp: success_reply_def member_opt and_then_def split: sum.splits jsval.splits)

lemma code_no_valid_url: "code (no_valid_url shown) = 502"
  by (simp add: no_valid_url_def error_json_def)

lemma code_image_json: "code (image_json u) = 200"
  by (simp add: image_json_def)

lemma image_json_inject: "image_json u = image_json v \<longleftrightarrow> u = v"
  by (simp add: image_json_def)

lemma no_valid_url_not_image: "no_valid_url shown \<noteq> image_json u"
  by (simp add: no_valid_url_def error_json_def image_json_def)

lemma imageUrlToSend_url:
  "imageUrlToSend st out = Inr (JStr u) \<longleftrightarrow>
     (st = Some (JStr (lit ''succeeded'')) \<or> st = Some (JStr (lit ''processing''))) \<and>
     (candidate_of_output out = Some (JStr u)) \<and> (out = Some (JStr u) \<longrightarrow> u \<noteq> [])"
  apply (cases out rule: typeof.cases)
  apply (auto simp: imageUrlToSend_def candidate_of_output_def and_then_def
      split: list.splits sum.splits)
  done

lemma starts_with_http_nonempty: "starts_with u (lit ''http'') \<Longrightarrow> u \<noteq> []"
  by (auto simp: starts_with_def lit_def)

lemma candidate_of_output_None: "candidate_of_output None = None"
  by (simp add: candidate_of_output_def)

lemma candidate_of_output_Some: "candidate_of_output out = Some v \<Longrightarrow> \<exists>y. out = Some y"
  by (cases out) (simp_all add: candidate_of_output_None)

lemma imageUrlToSend_throws:
  "imageUrlToSend st out = Inl e \<Longrightarrow>
   (st = Some (JStr (lit ''succeeded'')) \<or> st = Some (JStr (lit ''processing''))) \<and>
   (\<exists>x xs. out = Some (JArr (x # xs)) \<and> isl (to_string x))"
  by (cases out rule: typeof.cases)
    (auto simp: imageUrlToSend_def and_then_def split: list.splits sum.splits if_splits)

lemma success_reply_image: "success_reply d = Inr (image_json u) \<longleftrightarrow> extracts d u"
proof (cases "d = JNull")
  case True
  then show ?thesis
    by (simp add: success_reply_null extracts_def)
next
  case False
  let ?st = "opt_member d (lit ''status'')"
  let ?out = "opt_member d (lit ''output'')"
  show ?thesis
  proof
    assume "success_reply d = Inr (image_json u)"
    then obtain shown c where t: "template ?st = Inr shown"
      and c: "imageUrlToSend ?st ?out = Inr c"
      and r: "(case c of JStr v \<Rightarrow> if starts_with v (lit ''http'') then Inr (image_json v)
                      else Inr (no_valid_url shown)
               | _ \<Rightarrow> Inr (no_valid_url shown)) = (Inr (image_json u) :: exn + response)"
      unfolding success_reply_unfold [OF False]
      by (auto simp: and_then_def split: sum.splits)
    from r have "c = JStr u \<and> starts_with u (lit ''http'')"
      by (cases c) (auto simp: no_valid_url_not_image image_json_inject split: if_splits)
    with c show "extracts d u"
      by (auto simp: extracts_def imageUrlToSend_url dest: candidate_of_output_Some)
  next
    assume e: "extracts d u"
    then have "imageUrlToSend ?st ?out = Inr (JStr u)"
      unfolding imageUrlToSend_url
      by (auto simp: extracts_def dest: starts_with_http_nonempty)
    moreover from e have "\<exists>shown. template ?st = Inr shown"
      by (auto simp: extracts_def)
    moreover from e have "starts_with u (lit ''http'')"
      by (simp add: extracts_def)
    ultimately show "success_reply d = Inr (image_json u)"
      unfolding success_reply_unfold [OF False]
      by (auto simp: and_then_def)
  qed
qed

lemma success_reply_200:
  assumes "success_reply d = Inr res" and "code res = 200"
  shows "\<exists>u. res = image_json u"
proof (cases "d = JNull")
  case True
  with assms show ?thesis by (simp add: success_reply_null)
next
  case False
  from assms show ?thesis
    unfolding success_reply_unfold [OF False]
    by (auto simp: and_then_def code_no_valid_url split: sum.splits jsval.splits if_splits)
qed

lemma success_reply_otherwise:
  assumes "d \<noteq> JNull" and "template (opt_member d (lit ''status'')) = Inr shown"
    and "opt_member d (lit ''status'') = Some (JStr (lit ''succeeded'')) \<or>
         opt_member d (lit ''status'') = Some (JStr (lit ''processing'')) \<longrightarrow>
         (\<forall>x xs. opt_member d (lit ''output'') = Some (JArr (x # xs)) \<longrightarrow> \<not> isl (to_string x))"
    and "\<forall>u. \<not> extracts d u"
  shows "success_reply d = Inr (no_valid_url shown)"
proof -
  let ?st = "opt_member d (lit ''status'')"
  let ?out = "opt_member d (lit ''output'')"
  from assms(3) obtain c where c: "imageUrlToSend ?st ?out = Inr c"
    by (cases "imageUrlToSend ?st ?out") (auto dest: imageUrlToSend_throws)
  have "\<not> (\<exists>u. c = JStr u \<and> starts_with u (lit ''http''))"
  proof
    assume "\<exists>u. c = JStr u \<and> starts_with u (lit ''http'')"
    then obtain u where u: "c = JStr u" "starts_with u (lit ''http'')" by blast
    with c have "extracts d u"
      by (auto simp: extracts_def imageUrlToSend_url dest: candidate_of_output_Some)
    with assms(4) show False by blast
  qed
  with c assms(2) show ?thesis
    unfolding success_reply_unfold [OF assms(1)]
    by (cases c) (auto simp: and_then_def)
qed

subsection \<open>Success\<close>

lemma code_internal_error: "code internal_error = 500"
  by (simp add: internal_error_def error_json_def)

lemma internal_error_not_image: "internal_error \<noteq> image_json u"
  by (simp add: internal_error_def error_json_def image_json_def)

lemma reply_to_ok:
  assumes "req_description req = Inr (Some (JStr s))" and "trim s \<noteq> []"
    and "REPLICATE_API_TOKEN env = Some tok" and "tok \<noteq> []"
    and "fetch (provider_request rvn tok (trim s)) = Inr r" and "ok r"
  shows "generate_image rvn env fetch req =
           ([Fetch (provider_request rvn tok (trim s)), ReadJson],
            Inr (case read_json r of
                   Inl e \<Rightarrow> internal_error
                 | Inr d \<Rightarrow>
                     (case success_reply d of Inl e \<Rightarrow> internal_error | Inr res \<Rightarrow> res)))"
  unfolding generate_image_valid [OF assms(1-4)] call_provider_ok [where fetch = fetch, OF assms(5,6)]
  by (simp add: and_then_def split: sum.splits)

text \<open>
  Claim C1. For a valid, configured request and an upstream response with a 2xx status,
  the handler answers 200 with \<^verbatim>\<open>{ imageUrl: u }\<close> exactly when the body parses and, in the
  parsed body, \<^verbatim>\<open>status\<close> is \<^verbatim>\<open>succeeded\<close> or \<^verbatim>\<open>processing\<close>, \<^verbatim>\<open>output\<close> is present, and the
  candidate (first element of a non-empty array, or the string itself) is the string \<open>u\<close>
  and starts with \<^verbatim>\<open>http\<close>; in every other 2xx case the status of the answer is not 200.
\<close>

theorem success_exactly_when_extracted:
  assumes "req_description req = Inr (Some (JStr s))" and "trim s \<noteq> []"
    and "REPLICATE_API_TOKEN env = Some tok" and "tok \<noteq> []"
    and "fetch (provider_request rvn tok (trim s)) = Inr r" and "ok r"
  shows "(snd (generate_image rvn env fetch req) =
            Inr \<lparr>code = 200, content = JObj [(lit ''imageUrl'', JStr u)]\<rparr> \<longleftrightarrow>
          (\<exists>d. read_json r = Inr d \<and> extracts d u)) \<and>
         ((\<exists>res. snd (generate_image rvn env fetch req) = Inr res \<and> code res = 200) \<longleftrightarrow>
          (\<exists>d v. read_json r = Inr d \<and> extracts d v))"
proof (cases "read_json r")
  case (Inl e)
  then show ?thesis
    unfolding reply_to_ok [where fetch = fetch, OF assms]
    using internal_error_not_image [of u]
    by (simp add: code_internal_error image_json_def)
next
  case (Inr d)
  show ?thesis
  proof (cases "success_reply d")
    case (Inl e)
    then have "\<not> extracts d v" for v
      using success_reply_image [of d v] by simp
    with Inl Inr show ?thesis
      unfolding reply_to_ok [where fetch = fetch, OF assms]
      using internal_error_not_image [of u]
      by (simp add: code_internal_error image_json_def)
  next
    case (Inr res)
    have a: "res = image_json v \<longleftrightarrow> extracts d v" for v
      using success_reply_image [of d v] Inr by auto
    have b: "code res = 200 \<longleftrightarrow> (\<exists>v. extracts d v)"
    proof
      assume "code res = 200"
      with success_reply_200 [OF Inr] a show "\<exists>v. extracts d v" by blast
    next
      assume "\<exists>v. extracts d v"
      with a obtain v where "res = image_json v" by blast
      then show "code res = 200" by (simp add: code_image_json)
    qed
    from a [of u] b Inr \<open>read_json r = Inr d\<close> show ?thesis
      unfolding reply_to_ok [where fetch = fetch, OF assms]
      by (simp add: image_json_def)
  qed
qed

theorem success_exactly_when_extracted_witness:
  "ok succeeded_with_array \<and>
   snd (generate_image Server_js configured (\<lambda>rq. Inr succeeded_with_array) cat_request) =
     Inr \<lparr>code = 200, content = JObj [(lit ''imageUrl'', JStr (lit ''http://x/img.png''))]\<rparr>"
proof -
  have k: "ok succeeded_with_array"
    by (simp add: ok_def succeeded_with_array_def)
  have f: "(\<lambda>rq. Inr succeeded_with_array) (provider_request Server_js (lit ''r8_key'') (trim (lit '' a cat ''))) =
      (Inr succeeded_with_array :: exn + upstream_response)"
    by simp
  have e: "\<exists>d. read_json succeeded_with_array = Inr d \<and> extracts d (lit ''http://x/img.png'')"
    by (simp add: succeeded_with_array_def extracts_def candidate_of_output_def starts_with_def
        lit_def)
  from success_exactly_when_extracted [where fetch = "\<lambda>rq. Inr succeeded_with_array"
      and rvn = Server_js and u = "lit ''http://x/img.png''",
      OF cat_request_description trim_a_cat_nonempty configured_token token_nonempty f k] e k
  show ?thesis by blast
qed

subsection \<open>The shape of every response\<close>







subsection \<open>Exceptions, the outbound call, trimming\<close>

lemma read_json_event:
  assumes "fetch (provider_request rvn tok p) = Inr r"
    and "ReadJson \<in> set (fst (call_provider rvn fetch tok p))"
  shows "snd (call_provider rvn fetch tok p) =
           and_then (read_json r)
             (\<lambda>d. if \<not> ok r then error_reply (status r) d else success_reply d)"
  using assms
  by (auto simp: call_provider_def Let_def split: revision.splits if_splits)

text \<open>
  Claim C6. For a valid, configured request: when \<^verbatim>\<open>fetch\<close> throws, or when the handler
  reads the body with \<^verbatim>\<open>.json()\<close> and that read throws, the answer is status 500 with the
  body \<^verbatim>\<open>{ error: "Internal server error during image generation call." }\<close>.
\<close>

theorem exception_gives_500:
  assumes "req_description req = Inr (Some (JStr s))" and "trim s \<noteq> []"
    and "REPLICATE_API_TOKEN env = Some tok" and "tok \<noteq> []"
    and "fetch (provider_request rvn tok (trim s)) = Inl e \<or>
         (\<exists>r. fetch (provider_request rvn tok (trim s)) = Inr r \<and>
              ReadJson \<in> set (fst (generate_image rvn env fetch req)) \<and>
              read_json r = Inl e)"
  shows "snd (generate_image rvn env fetch req) =
           Inr \<lparr>code = 500,
            content = JObj [(lit ''error'',
              JStr (lit ''Internal server error during image generation call.''))]\<rparr>"
proof -
  have "snd (call_provider rvn fetch tok (trim s)) = Inl e"
    using assms(5)
  proof
    assume "fetch (provider_request rvn tok (trim s)) = Inl e"
    then show ?thesis by (simp add: call_provider_throws)
  next
    assume "\<exists>r. fetch (provider_request rvn tok (trim s)) = Inr r \<and>
              ReadJson \<in> set (fst (generate_image rvn env fetch req)) \<and>
              read_json r = Inl e"
    then obtain r where r: "fetch (provider_request rvn tok (trim s)) = Inr r"
      and ev: "ReadJson \<in> set (fst (generate_image rvn env fetch req))"
      and j: "read_json r = Inl e" by blast
    from ev have "ReadJson \<in> set (fst (call_provider rvn fetch tok (trim s)))"
      unfolding generate_image_valid [OF assms(1-4)] by simp
    from read_json_event [where fetch = fetch, OF r this] j show ?thesis
      by (simp add: and_then_def)
  qed
  then show ?thesis
    unfolding generate_image_valid [OF assms(1-4)]
    by (simp add: internal_error_def error_json_def)
qed

theorem exception_gives_500_witness:
  "snd (generate_image Server_js configured (\<lambda>rq. Inl FetchError) cat_request) =
     Inr \<lparr>code = 500,
      content = JObj [(lit ''error'',
        JStr (lit ''Internal server error during image generation call.''))]\<rparr>"
proof -
  have "(\<lambda>rq. Inl FetchError) (provider_request Server_js (lit ''r8_key'') (trim (lit '' a cat ''))) =
          (Inl FetchError :: exn + upstream_response) \<or>
        (\<exists>r. (\<lambda>rq. Inl FetchError) (provider_request Server_js (lit ''r8_key'') (trim (lit '' a cat ''))) =
              Inr r \<and>
             ReadJson \<in> set (fst (generate_image Server_js configured (\<lambda>rq. Inl FetchError) cat_request)) \<and>
             read_json r = Inl FetchError)"
    by simp
  from exception_gives_500 [where fetch = "\<lambda>rq. Inl FetchError" and rvn = Server_js,
      OF cat_request_description trim_a_cat_nonempty configured_token token_nonempty this]
  show ?thesis .
qed

text \<open>
  Claim C7. For a valid, configured request the trace holds exactly one call of \<^verbatim>\<open>fetch\<close>:
  a POST to the fixed prediction endpoint whose \<^verbatim>\<open>Authorization\<close> header is the scheme word
  (\<^verbatim>\<open>Bearer\<close> in \<^verbatim>\<open>server.js\<close>, \<^verbatim>\<open>Token\<close> in \<^verbatim>\<open>part_000\<close>), a space and the credential, whose
  \<^verbatim>\<open>Prefer\<close> header is \<^verbatim>\<open>wait\<close>, and whose body is
  \<^verbatim>\<open>{ input: { prompt: d, prompt_upsampling: true } }\<close> with \<open>d\<close> the trimmed description.
\<close>

theorem single_outbound_post:
  assumes "req_description req = Inr (Some (JStr s))" and "trim s \<noteq> []"
    and "REPLICATE_API_TOKEN env = Some tok" and "tok \<noteq> []"
  shows "fetches (fst (generate_image rvn env fetch req)) =
           [\<lparr>url = lit ''https://api.replicate.com/v1/models/black-forest-labs/flux-1.1-pro/predictions'',
             http_method = lit ''POST'',
             headers = request_headers rvn tok,
             payload = JObj [(lit ''input'',
                              JObj [(lit ''prompt'', JStr (trim s)),
                                    (lit ''prompt_upsampling'', JBool True)])]\<rparr>] \<and>
         map_of (request_headers rvn tok) (lit ''Authorization'') =
           Some ((case rvn of Server_js \<Rightarrow> lit ''Bearer '' | Part_000 \<Rightarrow> lit ''Token '') @ tok) \<and>
         map_of (request_headers rvn tok) (lit ''Prefer'') = Some (lit ''wait'')"
proof -
  have "fetches (fst (generate_image rvn env fetch req)) = [provider_request rvn tok (trim s)]"
    unfolding generate_image_valid [OF assms] by (simp add: fetches_call_provider)
  moreover have "map_of (request_headers rvn tok) (lit ''Authorization'') =
      Some ((case rvn of Server_js \<Rightarrow> lit ''Bearer '' | Part_000 \<Rightarrow> lit ''Token '') @ tok)"
    by (cases rvn) (simp_all add: request_headers_def)
  moreover have "map_of (request_headers rvn tok) (lit ''Prefer'') = Some (lit ''wait'')"
    by (cases rvn) (simp_all add: request_headers_def lit_def)
  ultimately show ?thesis
    by (simp add: provider_request_def REPLICATE_API_URL_def requestBody_def)
qed

theorem single_outbound_post_witness:
  "fetches (fst (generate_image Part_000 configured (\<lambda>rq. Inl FetchError) cat_request)) =
     [\<lparr>url = lit ''https://api.replicate.com/v1/models/black-forest-labs/flux-1.1-pro/predictions'',
       http_method = lit ''POST'',
       headers = request_headers Part_000 (lit ''r8_key''),
       payload = JObj [(lit ''input'',
                        JObj [(lit ''prompt'', JStr (lit ''a cat'')),
                              (lit ''prompt_upsampling'', JBool True)])]\<rparr>] \<and>
   map_of (request_headers Part_000 (lit ''r8_key'')) (lit ''Authorization'') =
     Some (lit ''Token r8_key'')"
proof -
  have c: "lit ''Token '' @ lit ''r8_key'' = lit ''Token r8_key''"
    by (simp add: lit_def)
  from single_outbound_post [where fetch = "\<lambda>rq. Inl FetchError" and rvn = Part_000,
      OF cat_request_description trim_a_cat_nonempty configured_token token_nonempty]
  show ?thesis by (simp add: trim_a_cat c)
qed

lemma checked_description_trim:
  "map_option trim (checked_description (Some (JStr (trim s)))) =
   map_option trim (checked_description (Some (JStr s)))"
proof (cases "trim s = []")
  case True
  then have "checked_description (Some (JStr (trim s))) = None"
    and "checked_description (Some (JStr s)) = None"
    by (simp_all add: checked_description_None trim_Nil)
  then show ?thesis by simp
next
  case False
  then have "checked_description (Some (JStr (trim s))) = Some (trim s)"
    and "checked_description (Some (JStr s)) = Some s"
    by (simp_all add: checked_description_Some trim_idem)
  then show ?thesis by (simp add: trim_idem)
qed

lemma generate_image_by_description:
  assumes "req_description req = Inr d"
  shows "generate_image rvn env fetch req =
     (case map_option trim (checked_description d) of
        None \<Rightarrow> ([], Inr bad_request)
      | Some trimmedDescription \<Rightarrow>
          (case REPLICATE_API_TOKEN env of
             None \<Rightarrow> ([], Inr not_configured)
           | Some replicateApiToken \<Rightarrow>
               if replicateApiToken = [] then ([], Inr not_configured)
               else
                 (case call_provider rvn fetch replicateApiToken trimmedDescription of
                    (events, Inl e) \<Rightarrow> (events, Inr internal_error)
                  | (events, Inr res) \<Rightarrow> (events, Inr res))))"
  using assms by (simp add: generate_image_def Let_def split: option.splits)

lemma fetches_generate_image:
  assumes "rq \<in> set (fetches (fst (generate_image rvn env fetch req)))"
  shows "\<exists>s tok. req_description req = Inr (Some (JStr s)) \<and>
           rq = provider_request rvn tok (trim s)"
proof (cases "req_description req")
  case (Inl e)
  with assms show ?thesis by (simp add: generate_image_def)
next
  case (Inr d)
  show ?thesis
  proof (cases "checked_description d")
    case None
    with Inr assms show ?thesis by (simp add: generate_image_def)
  next
    case (Some s)
    with Inr have d: "req_description req = Inr (Some (JStr s))" "trim s \<noteq> []"
      by (simp_all add: checked_description_Some)
    show ?thesis
    proof (cases "\<exists>tok. REPLICATE_API_TOKEN env = Some tok \<and> tok \<noteq> []")
      case False
      with Some Inr assms show ?thesis
        by (auto simp: generate_image_def split: option.splits)
    next
      case True
      then obtain tok where tok: "REPLICATE_API_TOKEN env = Some tok" "tok \<noteq> []" by blast
      from assms have "rq = provider_request rvn tok (trim s)"
        unfolding generate_image_valid [OF d tok] by (simp add: fetches_call_provider)
      with d show ?thesis by blast
    qed
  qed
qed

text \<open>
  Claim C10. A request with the description \<open>s\<close> and a request with the description
  \<open>trim s\<close> give the same trace of provider events, hence the same outbound request, and
  the same response; the prompt of every outbound request is \<open>trim s\<close>, which neither
  begins nor ends with a white-space code unit.
\<close>

theorem trimming_invariance:
  assumes "req_description req = Inr (Some (JStr s))"
    and "req_description req' = Inr (Some (JStr (trim s)))"
  shows "generate_image rvn env fetch req = generate_image rvn env fetch req' \<and>
         (\<forall>rq \<in> set (fetches (fst (generate_image rvn env fetch req))).
            payload rq = JObj [(lit ''input'',
                               JObj [(lit ''prompt'', JStr (trim s)),
                                     (lit ''prompt_upsampling'', JBool True)])]) \<and>
         (\<forall>c t. trim s = c # t \<or> trim s = t @ [c] \<longrightarrow> \<not> is_white_space c)"
proof (intro conjI)
  show "generate_image rvn env fetch req = generate_image rvn env fetch req'"
    unfolding generate_image_by_description [OF assms(1)]
      generate_image_by_description [OF assms(2)]
    by (simp only: checked_description_trim)
next
  show "\<forall>rq \<in> set (fetches (fst (generate_image rvn env fetch req))).
            payload rq = JObj [(lit ''input'',
                               JObj [(lit ''prompt'', JStr (trim s)),
                                     (lit ''prompt_upsampling'', JBool True)])]"
    using assms(1)
    by (auto dest!: fetches_generate_image simp: provider_request_def requestBody_def)
next
  show "\<forall>c t. trim s = c # t \<or> trim s = t @ [c] \<longrightarrow> \<not> is_white_space c"
    using trim_no_leading trim_no_trailing by blast
qed

theorem trimming_invariance_witness:
  "generate_image Server_js configured (\<lambda>rq. Inr succeeded_with_string) cat_request =
   generate_image Server_js configured (\<lambda>rq. Inr succeeded_with_string)
     \<lparr>body = Some (JObj [(lit ''description'', JStr (lit ''a cat''))])\<rparr>"
proof -
  have "req_description \<lparr>body = Some (JObj [(lit ''description'', JStr (lit ''a cat''))])\<rparr> =
      Inr (Some (JStr (trim (lit '' a cat ''))))"
    by (simp add: req_description_def trim_a_cat)
  from trimming_invariance [OF cat_request_description this]
  show ?thesis by blast
qed

subsection \<open>Output as a string or as an array; upstream failures\<close>

lemma imageUrlToSend_singleton:
  "imageUrlToSend st (Some (JArr [JStr u])) =
     (if (st = Some (JStr (lit ''succeeded'')) \<or> st = Some (JStr (lit ''processing'')))
      then Inr (JStr u) else Inr JNull)"
  by (simp add: imageUrlToSend_def and_then_def)

lemma imageUrlToSend_string:
  "imageUrlToSend st (Some (JStr u)) =
     (if (st = Some (JStr (lit ''succeeded'')) \<or> st = Some (JStr (lit ''processing''))) \<and> u \<noteq> []
      then Inr (JStr u) else Inr JNull)"
  by (simp add: imageUrlToSend_def)

lemma success_reply_string_or_singleton:
  assumes "map_of fs (lit ''output'') = Some (JStr u)"
    and "map_of fs' (lit ''output'') = Some (JArr [JStr u])"
    and "\<forall>k. k \<noteq> lit ''output'' \<longrightarrow> map_of fs' k = map_of fs k"
  shows "success_reply (JObj fs') = success_reply (JObj fs)"
proof -
  have "lit ''status'' \<noteq> lit ''output''" by (simp add: lit_def)
  with assms(3) have st: "map_of fs' (lit ''status'') = map_of fs (lit ''status'')" by blast
  have e: "\<not> starts_with [] (lit ''http'')" by (simp add: starts_with_def lit_def)
  show ?thesis
    unfolding success_reply_unfold [of "JObj fs", simplified]
      success_reply_unfold [of "JObj fs'", simplified] st assms(1,2)
      imageUrlToSend_singleton imageUrlToSend_string
    using e by (auto simp: and_then_def split: sum.splits)
qed

text \<open>
  Claim C8. Two 2xx upstream responses whose parsed bodies agree on every field but
  \<^verbatim>\<open>output\<close>, which is the string \<open>u\<close> in one and the one-element array \<^verbatim>\<open>[u]\<close> in the other,
  give the same result: the same trace, the same status and the same body.
\<close>

theorem string_output_same_as_singleton_array:
  assumes "ok r" and "read_json r = Inr (JObj fs)"
    and "map_of fs (lit ''output'') = Some (JStr u)"
    and "ok r'" and "read_json r' = Inr (JObj fs')"
    and "map_of fs' (lit ''output'') = Some (JArr [JStr u])"
    and "\<forall>k. k \<noteq> lit ''output'' \<longrightarrow> map_of fs' k = map_of fs k"
  shows "generate_image rvn env (\<lambda>rq. Inr r') req = generate_image rvn env (\<lambda>rq. Inr r) req"
proof -
  have eq: "call_provider rvn (\<lambda>rq. Inr r') tok p = call_provider rvn (\<lambda>rq. Inr r) tok p"
    for tok p
    using assms(1,2,4,5) success_reply_string_or_singleton [OF assms(3,6,7)]
    by (simp add: call_provider_def Let_def and_then_def)
  show ?thesis
    unfolding generate_image_def eq by (rule refl)
qed

theorem string_output_same_as_singleton_array_witness:
  "generate_image Server_js configured (\<lambda>rq. Inr succeeded_with_array) cat_request =
   generate_image Server_js configured (\<lambda>rq. Inr succeeded_with_string) cat_request"
proof -
  let ?fs = "[(lit ''status'', JStr (lit ''succeeded'')),
              (lit ''output'', JStr (lit ''http://x/img.png''))]"
  let ?fs' = "[(lit ''status'', JStr (lit ''succeeded'')),
               (lit ''output'', JArr [JStr (lit ''http://x/img.png'')])]"
  have k: "ok succeeded_with_string"
    by (simp add: ok_def succeeded_with_string_def)
  have j: "read_json succeeded_with_string = Inr (JObj ?fs)"
    by (simp add: succeeded_with_string_def)
  have o: "map_of ?fs (lit ''output'') = Some (JStr (lit ''http://x/img.png''))"
    by (simp add: lit_def)
  have k': "ok succeeded_with_array"
    by (simp add: ok_def succeeded_with_array_def)
  have j': "read_json succeeded_with_array = Inr (JObj ?fs')"
    by (simp add: succeeded_with_array_def)
  have o': "map_of ?fs' (lit ''output'') = Some (JArr [JStr (lit ''http://x/img.png'')])"
    by (simp add: lit_def)
  have r: "\<forall>k. k \<noteq> lit ''output'' \<longrightarrow> map_of ?fs' k = map_of ?fs k"
    by simp
  from string_output_same_as_singleton_array [OF k j o k' j' o' r,
      of Server_js configured cat_request]
  show ?thesis .
qed

lemma errorDetail_detail_of_body: "errorDetail st d = detail_of_body st d"
  by (simp add: errorDetail_def detail_of_body_def or_else_def split: option.splits)

text \<open>
  Claim C2, as amended. For a valid, configured request and an upstream response with a
  non-2xx status: if the body is not JSON-typed, the handler never reads it with
  \<^verbatim>\<open>.json()\<close> and answers 502 with \<^verbatim>\<open>Image service connection failed with status: N\<close>
  (in \<^verbatim>\<open>part_000\<close> provided that reading the body as text does not throw); if the body is
  JSON-typed, parses to \<open>d\<close>, and the detail converts to the string \<open>shown\<close> without
  throwing, the handler answers 502 with \<^verbatim>\<open>Failed to generate image. \<close> followed by \<open>shown\<close>,
  where the detail is the \<^verbatim>\<open>error\<close> field if truthy, else the \<^verbatim>\<open>detail\<close> field if truthy, else
  \<^verbatim>\<open>Replicate API Status: N\<close>.
\<close>

theorem upstream_error_status:
  assumes "req_description req = Inr (Some (JStr s))" and "trim s \<noteq> []"
    and "REPLICATE_API_TOKEN env = Some tok" and "tok \<noteq> []"
    and "fetch (provider_request rvn tok (trim s)) = Inr r" and "\<not> ok r"
  shows "(\<not> json_typed r \<longrightarrow>
            ReadJson \<notin> set (fst (generate_image rvn env fetch req)) \<and>
            (rvn = Server_js \<or> \<not> isl (read_text r) \<longrightarrow>
               snd (generate_image rvn env fetch req) =
                 Inr \<lparr>code = 502,
                  content = JObj [(lit ''error'',
                    JStr (lit ''Image service connection failed with status: '' @
                          show_nat (status r)))]\<rparr>)) \<and>
         (json_typed r \<longrightarrow>
            (\<forall>d shown. read_json r = Inr d \<and>
                to_string (detail_of_body (status r) d) = Inr shown \<longrightarrow>
               snd (generate_image rvn env fetch req) =
                 Inr \<lparr>code = 502,
                  content = JObj [(lit ''error'',
                    JStr (lit ''Failed to generate image. '' @ shown))]\<rparr>))"
proof (cases "json_typed r")
  case False
  with assms(6) show ?thesis
    unfolding generate_image_valid [OF assms(1-4)]
      call_provider_untyped [where fetch = fetch, OF assms(5,6) False]
    by (cases rvn; cases "read_text r")
      (simp_all add: and_then_def connection_failed_def error_json_def)
next
  case True
  then show ?thesis
    unfolding generate_image_valid [OF assms(1-4)]
      call_provider_error_json [where fetch = fetch, OF assms(5,6) True]
    by (auto simp: and_then_def error_reply_def errorDetail_detail_of_body
        generation_failed_def error_json_def)
qed

theorem upstream_error_status_witness:
  "\<not> ok bad_prompt \<and> json_typed bad_prompt \<and>
   snd (generate_image Server_js configured (\<lambda>rq. Inr bad_prompt) cat_request) =
     Inr \<lparr>code = 502,
      content = JObj [(lit ''error'', JStr (lit ''Failed to generate image. bad prompt''))]\<rparr>"
proof -
  have k: "\<not> ok bad_prompt"
    by (simp add: ok_def bad_prompt_def)
  have t: "json_typed bad_prompt"
    by (simp add: json_typed_def bad_prompt_def starts_with_def lit_def)
  have d: "read_json bad_prompt = Inr (JObj [(lit ''error'', JStr (lit ''bad prompt''))]) \<and>
      to_string (detail_of_body (status bad_prompt) (JObj [(lit ''error'', JStr (lit ''bad prompt''))])) =
        Inr (lit ''bad prompt'')"
    by (simp add: bad_prompt_def detail_of_body_def) (simp add: lit_def)
  have c: "lit ''Failed to generate image. '' @ lit ''bad prompt'' =
      lit ''Failed to generate image. bad prompt''"
    by (simp add: lit_def)
  from upstream_error_status [where fetch = "\<lambda>rq. Inr bad_prompt" and rvn = Server_js,
      OF cat_request_description trim_a_cat_nonempty configured_token token_nonempty
        provider_replies k] t d
  have "snd (generate_image Server_js configured (\<lambda>rq. Inr bad_prompt) cat_request) =
     Inr \<lparr>code = 502,
      content = JObj [(lit ''error'',
        JStr (lit ''Failed to generate image. '' @ lit ''bad prompt''))]\<rparr>"
    by blast
  with k t show ?thesis by (simp only: c simp_thms)
qed

text \<open>
  Claim C2 as first stated fails: a non-2xx response that is JSON-typed but whose body
  does not parse is answered with 500, not 502.
\<close>

theorem upstream_error_parse_failure_counterexample:
  "\<not> ok broken_error_body \<and> json_typed broken_error_body \<and>
   generate_image Server_js configured (\<lambda>rq. Inr broken_error_body) cat_request =
     ([Fetch (provider_request Server_js (lit ''r8_key'') (lit ''a cat'')), ReadJson],
      Inr \<lparr>code = 500,
           content = JObj [(lit ''error'',
             JStr (lit ''Internal server error during image generation call.''))]\<rparr>)"
proof -
  have k: "\<not> ok broken_error_body"
    by (simp add: ok_def broken_error_body_def)
  have t: "json_typed broken_error_body"
    by (simp add: json_typed_def broken_error_body_def starts_with_def lit_def)
  have "generate_image Server_js configured (\<lambda>rq. Inr broken_error_body) cat_request =
      ([Fetch (provider_request Server_js (lit ''r8_key'') (trim (lit '' a cat ''))), ReadJson],
       Inr internal_error)"
    unfolding generate_image_valid [OF cat_request_description trim_a_cat_nonempty
        configured_token token_nonempty]
      call_provider_error_json [where fetch = "\<lambda>rq. Inr broken_error_body",
        OF provider_replies k t]
    by (simp add: and_then_def broken_error_body_def)
  with k t show ?thesis
    by (simp add: trim_a_cat internal_error_def error_json_def)
qed

text \<open>
  Claim C3, as amended. For a valid, configured request and a 2xx upstream response whose
  body parses to a value \<open>d\<close> other than \<^verbatim>\<open>null\<close>, whose \<^verbatim>\<open>status\<close> field converts to the
  string \<open>shown\<close> without throwing (\<^verbatim>\<open>undefined\<close> when the field is absent), and where, if
  \<^verbatim>\<open>status\<close> is \<^verbatim>\<open>succeeded\<close> or \<^verbatim>\<open>processing\<close>, the first element of an array \<^verbatim>\<open>output\<close>
  converts to a string without throwing: if extraction fails, the handler answers 502
  with the message
  \<^verbatim>\<open>Image service returned status 'shown' or did not provide a valid image URL.\<close>
  With any other \<^verbatim>\<open>status\<close>, such as \<^verbatim>\<open>failed\<close>, the array is never rendered and nothing is
  asked of \<^verbatim>\<open>output\<close>.
\<close>

theorem failed_extraction_502:
  assumes "req_description req = Inr (Some (JStr s))" and "trim s \<noteq> []"
    and "REPLICATE_API_TOKEN env = Some tok" and "tok \<noteq> []"
    and "fetch (provider_request rvn tok (trim s)) = Inr r" and "ok r"
    and "read_json r = Inr d" and "d \<noteq> JNull"
    and "template (opt_member d (lit ''status'')) = Inr shown"
    and "opt_member d (lit ''status'') = Some (JStr (lit ''succeeded'')) \<or>
         opt_member d (lit ''status'') = Some (JStr (lit ''processing'')) \<longrightarrow>
         (\<forall>x xs. opt_member d (lit ''output'') = Some (JArr (x # xs)) \<longrightarrow> \<not> isl (to_string x))"
    and "\<forall>u. \<not> extracts d u"
  shows "snd (generate_image rvn env fetch req) =
           Inr \<lparr>code = 502,
            content = JObj [(lit ''error'',
              JStr (lit ''Image service returned status '' @ [0x27] @ shown @ [0x27] @
                    lit '' or did not provide a valid image URL.''))]\<rparr>"
  unfolding reply_to_ok [where fetch = fetch, OF assms(1-6)]
    using assms(7) success_reply_otherwise [OF assms(8-11)]
    by (simp add: no_valid_url_def error_json_def)

theorem failed_extraction_502_witness:
  "ok failed_with_odd_output \<and>
   snd (generate_image Part_000 configured (\<lambda>rq. Inr failed_with_odd_output) cat_request) =
     Inr \<lparr>code = 502,
      content = JObj [(lit ''error'',
        JStr (lit ''Image service returned status '' @ [0x27] @ lit ''failed'' @ [0x27] @
              lit '' or did not provide a valid image URL.''))]\<rparr>"
proof -
  let ?d = "JObj [(lit ''status'', JStr (lit ''failed'')),
                  (lit ''output'', JArr [JObj [(lit ''toString'', JStr (lit ''x''))]])]"
  have k: "ok failed_with_odd_output"
    by (simp add: ok_def failed_with_odd_output_def)
  have j: "read_json failed_with_odd_output = Inr ?d"
    by (simp add: failed_with_odd_output_def)
  have n: "?d \<noteq> JNull" by simp
  have t: "template (opt_member ?d (lit ''status'')) = Inr (lit ''failed'')"
    by simp
  have a: "opt_member ?d (lit ''status'') = Some (JStr (lit ''succeeded'')) \<or>
      opt_member ?d (lit ''status'') = Some (JStr (lit ''processing'')) \<longrightarrow>
      (\<forall>x xs. opt_member ?d (lit ''output'') = Some (JArr (x # xs)) \<longrightarrow> \<not> isl (to_string x))"
    by (simp add: lit_def)
  have e: "\<forall>u. \<not> extracts ?d u"
    by (simp add: extracts_def lit_def)
  from failed_extraction_502 [where fetch = "\<lambda>rq. Inr failed_with_odd_output"
      and rvn = Part_000,
      OF cat_request_description trim_a_cat_nonempty configured_token token_nonempty
        provider_replies k j n t a e] k
  show ?thesis by blast
qed

text \<open>
  Claim C3 as first stated fails: a 2xx response whose body does not parse, and a 2xx
  response whose body is the JSON value \<^verbatim>\<open>null\<close>, are both answered with 500, not 502.
\<close>

theorem failed_extraction_500_counterexample:
  "ok broken_success_body \<and>
   snd (generate_image Server_js configured (\<lambda>rq. Inr broken_success_body) cat_request) =
     Inr \<lparr>code = 500,
      content = JObj [(lit ''error'',
        JStr (lit ''Internal server error during image generation call.''))]\<rparr> \<and>
   ok null_success_body \<and> read_json null_success_body = Inr JNull \<and>
   snd (generate_image Server_js configured (\<lambda>rq. Inr null_success_body) cat_request) =
     Inr \<lparr>code = 500,
      content = JObj [(lit ''error'',
        JStr (lit ''Internal server error during image generation call.''))]\<rparr>"
proof -
  have k: "ok broken_success_body"
    by (simp add: ok_def broken_success_body_def)
  have k': "ok null_success_body"
    by (simp add: ok_def null_success_body_def)
  have j: "read_json null_success_body = Inr JNull"
    by (simp add: null_success_body_def)
  have "snd (generate_image Server_js configured (\<lambda>rq. Inr broken_success_body) cat_request) =
      Inr internal_error"
    unfolding reply_to_ok [where fetch = "\<lambda>rq. Inr broken_success_body",
        OF cat_request_description trim_a_cat_nonempty configured_token token_nonempty
          provider_replies k]
    by (simp add: broken_success_body_def)
  moreover
  have "snd (generate_image Server_js configured (\<lambda>rq. Inr null_success_body) cat_request) =
      Inr internal_error"
    unfolding reply_to_ok [where fetch = "\<lambda>rq. Inr null_success_body",
        OF cat_request_description trim_a_cat_nonempty configured_token token_nonempty
          provider_replies k']
    by (simp add: j success_reply_null)
  ultimately show ?thesis
    using k k' j by (simp add: internal_error_def error_json_def)
qed

end
